theory Spec2Isabelle
  imports Main
begin

section \<open>Python values, exceptions and the object store\<close>

text \<open>
  The file under verification is \<^verbatim>\<open>allennlp/training/trainer_base.py\<close>: the class
  \<^verbatim>\<open>TrainerBase\<close> with its constructor, \<^verbatim>\<open>_move_to_gpu\<close>, \<^verbatim>\<open>train\<close> and the class
  method \<^verbatim>\<open>from_params\<close>.

  The constructor is called with arbitrary Python values (it tests them with
  \<^verbatim>\<open>isinstance\<close>), so the values are a datatype. A dictionary is an object with
  identity: \<^verbatim>\<open>VDict a\<close> is a reference to the dictionary stored at address \<open>a\<close>.
  Floating point numbers are not part of the value model.
\<close>

type_synonym addr = nat

datatype pyval =
    VNone
  | VBool bool
  | VInt int
  | VStr string
  | VList "pyval list"
  | VDict addr

datatype error =
    ConfigurationError
  | AssertionError
  | NotImplementedError
  | IndexError
  | AttributeError
  | TypeError

text \<open>A dictionary with string keys, and the store of all dictionary objects.\<close>

type_synonym pydict = "string \<rightharpoonup> pyval"

type_synonym heap = "addr \<Rightarrow> pydict"

text \<open>
  \<^verbatim>\<open>isinstance(v, int)\<close> and \<^verbatim>\<open>isinstance(v, list)\<close>. In Python \<^verbatim>\<open>bool\<close> is a subclass
  of \<^verbatim>\<open>int\<close>, so \<^verbatim>\<open>isinstance(True, int)\<close> holds.
\<close>

fun isinstance_int :: "pyval \<Rightarrow> bool" where
  "isinstance_int (VInt i) = True"
| "isinstance_int (VBool b) = True"
| "isinstance_int v = False"

fun isinstance_list :: "pyval \<Rightarrow> bool" where
  "isinstance_list (VList xs) = True"
| "isinstance_list v = False"

text \<open>
  \<^verbatim>\<open>v == n\<close> for an integer literal \<open>n\<close> and \<^verbatim>\<open>v == s\<close> for a string literal \<open>s\<close>:
  \<^verbatim>\<open>True\<close> equals 1 and \<^verbatim>\<open>False\<close> equals 0; values of other types are different from
  a number, and only a string equals a string.
\<close>

fun py_eq_int :: "pyval \<Rightarrow> int \<Rightarrow> bool" where
  "py_eq_int (VInt i) n = (i = n)"
| "py_eq_int (VBool b) n = ((if b then 1 else 0) = n)"
| "py_eq_int v n = False"

fun py_eq_str :: "pyval \<Rightarrow> string \<Rightarrow> bool" where
  "py_eq_str (VStr t) s = (t = s)"
| "py_eq_str v s = False"

section \<open>The constructor\<close>

text \<open>
  The attributes the constructor sets: \<^verbatim>\<open>self._serialization_dir\<close>,
  \<^verbatim>\<open>self._multiple_gpu\<close>, \<^verbatim>\<open>self._cuda_devices\<close> and \<^verbatim>\<open>self._allocation_dict\<close>.
  \<^verbatim>\<open>allocation_dict\<close> is a \<^verbatim>\<open>Dict[str, int]\<close> or \<^verbatim>\<open>None\<close>: the dictionary is the list
  of its items, one per key, so that \<^verbatim>\<open>len\<close> is the length of the list.
\<close>

type_synonym allocation = "(string \<times> int) list"

record trainer_base =
  self_serialization_dir :: string
  self_multiple_gpu :: bool
  self_cuda_devices :: "pyval list"
  self_allocation_dict :: "allocation option"

text \<open>\<^verbatim>\<open>allocation_dict is None or len(allocation_dict) == 0\<close>\<close>

definition none_or_empty :: "allocation option \<Rightarrow> bool" where
  "none_or_empty allocation_dict =
     (case allocation_dict of None \<Rightarrow> True | Some d \<Rightarrow> length d = 0)"

text \<open>The items of a list value (the constructor stores the list it is given).\<close>

fun list_items :: "pyval \<Rightarrow> pyval list" where
  "list_items (VList xs) = xs"
| "list_items v = []"

text \<open>
  \<^verbatim>\<open>TrainerBase.__init__\<close>, lines 29 to 61. Its first statement calls
  \<^verbatim>\<open>check_for_gpu(cuda_device)\<close>, a function imported from \<^verbatim>\<open>allennlp.common.checks\<close>
  whose code is not part of the file: it is the parameter \<open>check_for_gpu\<close>, which gives
  \<open>None\<close> when the call returns and \<open>Some e\<close> when it raises \<open>e\<close>. An exception raised
  there leaves the constructor before any of its own checks.
\<close>

definition TrainerBase_init ::
  "(pyval \<Rightarrow> error option) \<Rightarrow> string \<Rightarrow> pyval \<Rightarrow> allocation option \<Rightarrow> error + trainer_base"
where
  "TrainerBase_init check_for_gpu serialization_dir cuda_device allocation_dict =
     (case check_for_gpu cuda_device of
        Some e \<Rightarrow> Inl e
      | None \<Rightarrow>
          if \<not> isinstance_int cuda_device \<and> \<not> isinstance_list cuda_device
          then Inl ConfigurationError
          else if isinstance_list cuda_device then
            (if none_or_empty allocation_dict
             then Inr \<lparr>self_serialization_dir = serialization_dir,
                       self_multiple_gpu = True,
                       self_cuda_devices = list_items cuda_device,
                       self_allocation_dict = None\<rparr>
             else Inr \<lparr>self_serialization_dir = serialization_dir,
                       self_multiple_gpu = False,
                       self_cuda_devices = list_items cuda_device,
                       self_allocation_dict = allocation_dict\<rparr>)
          else
            (if none_or_empty allocation_dict
             then Inr \<lparr>self_serialization_dir = serialization_dir,
                       self_multiple_gpu = False,
                       self_cuda_devices = [cuda_device],
                       self_allocation_dict = None\<rparr>
             else Inl AssertionError))"

text \<open>
  Modelled from the spec: \<^verbatim>\<open>check_for_gpu\<close> is missing from the sources, and the spec
  only says that the constructor validates GPU device arguments. This is the check on a
  host with \<open>n\<close> CUDA devices: a list is checked item by item, \<^verbatim>\<open>None\<close> and a negative
  number pass, a number from 0 on must be below \<open>n\<close> (\<^verbatim>\<open>ConfigurationError\<close> otherwise),
  and a value that cannot be compared with 0 raises \<^verbatim>\<open>TypeError\<close>. It is used for the
  concrete runs only; the general theorems hold for every \<open>check_for_gpu\<close>.
\<close>

fun check_for_gpu_on :: "nat \<Rightarrow> pyval \<Rightarrow> error option"
  and check_for_gpu_each :: "nat \<Rightarrow> pyval list \<Rightarrow> error option"
where
  "check_for_gpu_on n (VList ds) = check_for_gpu_each n ds"
| "check_for_gpu_on n VNone = None"
| "check_for_gpu_on n (VInt i) =
     (if 0 \<le> i \<and> int n \<le> i then Some ConfigurationError else None)"
| "check_for_gpu_on n (VBool b) =
     (if int n \<le> (if b then 1 else 0) then Some ConfigurationError else None)"
| "check_for_gpu_on n (VStr s) = Some TypeError"
| "check_for_gpu_on n (VDict a) = Some TypeError"
| "check_for_gpu_each n [] = None"
| "check_for_gpu_each n (d # ds) =
     (case check_for_gpu_on n d of Some e \<Rightarrow> Some e | None \<Rightarrow> check_for_gpu_each n ds)"

section \<open>Moving the model to the GPU, and training\<close>

text \<open>
  \<^verbatim>\<open>_move_to_gpu\<close>, lines 63 to 67. \<^verbatim>\<open>self._cuda_devices[0]\<close> raises \<^verbatim>\<open>IndexError\<close> on
  an empty list. \<^verbatim>\<open>model.cuda\<close> belongs to the model class: it is the parameter
  \<open>cuda\<close>. The method assigns to no attribute: the trainer it returns, beside the
  result, is the one it was called on.
\<close>

definition move_to_gpu ::
  "('m \<Rightarrow> pyval \<Rightarrow> error + 'm) \<Rightarrow> trainer_base \<Rightarrow> 'm \<Rightarrow> (error + 'm) \<times> trainer_base"
where
  "move_to_gpu cuda self model =
     (case self_cuda_devices self of
        [] \<Rightarrow> (Inl IndexError, self)
      | d # ds \<Rightarrow>
          if \<not> py_eq_int d (- 1) then (cuda model d, self) else (Inr model, self))"

text \<open>\<^verbatim>\<open>train\<close>, lines 69 to 73: the result would be a \<^verbatim>\<open>Dict[str, Any]\<close>.\<close>

definition train :: "trainer_base \<Rightarrow> error + pydict" where
  "train self = Inl NotImplementedError"


section \<open>The factory method\<close>

text \<open>
  Modelled from the spec: the class \<^verbatim>\<open>Params\<close> (\<^verbatim>\<open>allennlp.common.params\<close>) is missing
  from the sources; the spec calls it the framework's configuration object. A \<^verbatim>\<open>Params\<close>
  object wraps a dictionary, here the address of that dictionary in the store, and its
  methods \<^verbatim>\<open>get(key, default)\<close> and \<^verbatim>\<open>pop(key, default)\<close> are the methods of that name of
  a Python mapping: \<^verbatim>\<open>get\<close> returns the stored value (a nested dictionary by reference,
  not a copy) or the default, and \<^verbatim>\<open>pop\<close> returns the stored value and deletes the key,
  or returns the default and deletes nothing.
\<close>

definition drop_key :: "heap \<Rightarrow> addr \<Rightarrow> string \<Rightarrow> heap" where
  "drop_key h a key = h(a := (h a)(key := None))"

definition Params_pop :: "heap \<Rightarrow> addr \<Rightarrow> string \<Rightarrow> pyval \<Rightarrow> pyval \<times> heap" where
  "Params_pop h a key default_value =
     (case h a key of
        None \<Rightarrow> (default_value, h)
      | Some v \<Rightarrow> (v, drop_key h a key))"

text \<open>
  Line 81: \<^verbatim>\<open>typ3 = params.get("trainer", {}).pop("type", "default")\<close>. When the key
  \<^verbatim>\<open>"trainer"\<close> is missing, \<^verbatim>\<open>get\<close> returns the new empty dictionary \<^verbatim>\<open>{}\<close>, which
  nothing else refers to: \<^verbatim>\<open>pop\<close> on it returns \<^verbatim>\<open>"default"\<close> and the store is as
  before. When the stored value is not a dictionary, the call of \<^verbatim>\<open>pop\<close> fails:
  a list has a \<^verbatim>\<open>pop\<close> that takes one argument at most (\<^verbatim>\<open>TypeError\<close>), the other values
  have no such attribute (\<^verbatim>\<open>AttributeError\<close>).
\<close>

definition pop_trainer_type :: "heap \<Rightarrow> addr \<Rightarrow> (error + pyval) \<times> heap" where
  "pop_trainer_type h params =
     (case h params ''trainer'' of
        None \<Rightarrow> (Inr (VStr ''default''), h)
      | Some (VDict a) \<Rightarrow>
          (case Params_pop h a ''type'' (VStr ''default'') of (v, h') \<Rightarrow> (Inr v, h'))
      | Some (VList xs) \<Rightarrow> (Inl TypeError, h)
      | Some v \<Rightarrow> (Inl AttributeError, h))"

text \<open>
  The classes \<^verbatim>\<open>from_params\<close> hands over to are not part of the file; they are
  parameters, collected in a record. Each of them receives the store and returns the
  store it leaves behind, since it may change the configuration too.
  \<^item> \<open>by_name\<close>: \<^verbatim>\<open>TrainerBase.by_name\<close>, the registry lookup (it raises for a name that
    is not registered);
  \<^item> \<open>sub_from_params\<close>: \<^verbatim>\<open>from_params(params, serialization_dir, recover)\<close> of the class
    that \<open>by_name\<close> found;
  \<^item> \<open>TrainerPieces_from_params\<close> and \<open>Trainer_from_params\<close>: the two calls of the
    default path, the second with the keyword arguments in the order of the source.
\<close>

record 'o trainer_pieces =
  pieces_model :: 'o
  pieces_iterator :: 'o
  pieces_train_dataset :: 'o
  pieces_validation_dataset :: 'o
  pieces_params :: addr
  pieces_validation_iterator :: 'o

record ('i, 'o, 't) collaborators =
  by_name :: "pyval \<Rightarrow> error + 'i"
  sub_from_params :: "'i \<Rightarrow> heap \<Rightarrow> addr \<Rightarrow> string \<Rightarrow> bool \<Rightarrow> (error + 't) \<times> heap"
  TrainerPieces_from_params ::
    "heap \<Rightarrow> addr \<Rightarrow> string \<Rightarrow> bool \<Rightarrow> (error + 'o trainer_pieces) \<times> heap"
  Trainer_from_params ::
    "heap \<Rightarrow> 'o \<Rightarrow> string \<Rightarrow> 'o \<Rightarrow> 'o \<Rightarrow> 'o \<Rightarrow> addr \<Rightarrow> 'o \<Rightarrow> (error + 't) \<times> heap"

text \<open>Lines 85 to 94, the branch for \<^verbatim>\<open>"default"\<close>.\<close>

definition default_from_params ::
  "('i, 'o, 't) collaborators \<Rightarrow> heap \<Rightarrow> addr \<Rightarrow> string \<Rightarrow> bool \<Rightarrow> (error + 't) \<times> heap"
where
  "default_from_params C h params serialization_dir recover =
     (case TrainerPieces_from_params C h params serialization_dir recover of
        (Inl e, h') \<Rightarrow> (Inl e, h')
      | (Inr pieces, h') \<Rightarrow>
          Trainer_from_params C h'
            (pieces_model pieces)
            serialization_dir
            (pieces_iterator pieces)
            (pieces_train_dataset pieces)
            (pieces_validation_dataset pieces)
            (pieces_params pieces)
            (pieces_validation_iterator pieces))"

text \<open>\<^verbatim>\<open>TrainerBase.from_params\<close>, lines 75 to 96.\<close>

definition from_params ::
  "('i, 'o, 't) collaborators \<Rightarrow> heap \<Rightarrow> addr \<Rightarrow> string \<Rightarrow> bool \<Rightarrow> (error + 't) \<times> heap"
where
  "from_params C h params serialization_dir recover =
     (case pop_trainer_type h params of
        (Inl e, h') \<Rightarrow> (Inl e, h')
      | (Inr typ3, h') \<Rightarrow>
          if py_eq_str typ3 ''default''
          then default_from_params C h' params serialization_dir recover
          else
            (case by_name C typ3 of
               Inl e \<Rightarrow> (Inl e, h')
             | Inr impl \<Rightarrow> sub_from_params C impl h' params serialization_dir recover))"

section \<open>A concrete configuration\<close>

text \<open>
  A store with two configurations, and collaborators that only report what they were
  given. The dictionary at address 10 is
  \<^verbatim>\<open>{"trainer": {"type": "callback", "num_epochs": 3}, "model": "lm"}\<close>, its
  \<^verbatim>\<open>"trainer"\<close> entry is the dictionary at address 11; the dictionary at address 12 is
  \<^verbatim>\<open>{"model": "lm"}\<close>. The registry knows the name \<^verbatim>\<open>"callback"\<close> only.
\<close>

definition example_heap :: heap where
  "example_heap =
     (\<lambda>a. Map.empty)
       (10 := [''trainer'' \<mapsto> VDict 11, ''model'' \<mapsto> VStr ''lm''],
        11 := [''type'' \<mapsto> VStr ''callback'', ''num_epochs'' \<mapsto> VInt 3],
        12 := [''model'' \<mapsto> VStr ''lm''])"

definition example_by_name :: "pyval \<Rightarrow> error + string" where
  "example_by_name name =
     (case name of
        VStr s \<Rightarrow> if s = ''callback'' then Inr s else Inl ConfigurationError
      | v \<Rightarrow> Inl ConfigurationError)"





text \<open>\<^verbatim>\<open>model.cuda(device)\<close> of a model that records the device it was moved to.\<close>

definition example_cuda :: "pyval list \<Rightarrow> pyval \<Rightarrow> error + pyval list" where
  "example_cuda model device = Inr (device # model)"

text \<open>The trainer the constructor builds for one device (a number), or for a list given with an allocation.\<close>

definition example_trainer :: "pyval list \<Rightarrow> trainer_base" where
  "example_trainer devices =
     \<lparr>self_serialization_dir = ''out'',
      self_multiple_gpu = False,
      self_cuda_devices = devices,
      self_allocation_dict = None\<rparr>"

text \<open>
  A configuration whose type is \<^verbatim>\<open>"default"\<close>: the dictionary at address 20 is
  \<^verbatim>\<open>{"trainer": {"type": "default", "num_epochs": 3}, "model": "lm"}\<close>, its
  \<^verbatim>\<open>"trainer"\<close> entry is the dictionary at address 21.
\<close>

definition default_heap :: heap where
  "default_heap =
     (\<lambda>a. Map.empty)
       (20 := [''trainer'' \<mapsto> VDict 21, ''model'' \<mapsto> VStr ''lm''],
        21 := [''type'' \<mapsto> VStr ''default'', ''num_epochs'' \<mapsto> VInt 3])"

text \<open>
  Collaborators that look into the configuration they receive: each reports the
  entries \<^verbatim>\<open>params["trainer"]["type"]\<close>, \<^verbatim>\<open>params["trainer"]["num_epochs"]\<close> and
  \<^verbatim>\<open>params["model"]\<close> as it finds them (\<open>None\<close> for a missing key). The class found by
  name puts its name in front, \<^verbatim>\<open>Trainer.from_params\<close> the name \<^verbatim>\<open>"Trainer"\<close>; the
  entries travel from \<^verbatim>\<open>TrainerPieces.from_params\<close> to \<^verbatim>\<open>Trainer.from_params\<close> as the
  model, the iterator and the training data.
\<close>

definition trainer_entry :: "heap \<Rightarrow> addr \<Rightarrow> string \<Rightarrow> pyval option" where
  "trainer_entry h params key =
     (case h params ''trainer'' of
        Some (VDict a) \<Rightarrow> h a key
      | v \<Rightarrow> None)"

definition observing_sub_from_params ::
  "string \<Rightarrow> heap \<Rightarrow> addr \<Rightarrow> string \<Rightarrow> bool \<Rightarrow> (error + pyval option list) \<times> heap"
where
  "observing_sub_from_params impl h params serialization_dir recover =
     (Inr [Some (VStr impl), trainer_entry h params ''type'',
           trainer_entry h params ''num_epochs'', h params ''model''], h)"

definition observing_TrainerPieces_from_params ::
  "heap \<Rightarrow> addr \<Rightarrow> string \<Rightarrow> bool \<Rightarrow> (error + pyval option trainer_pieces) \<times> heap"
where
  "observing_TrainerPieces_from_params h params serialization_dir recover =
     (Inr \<lparr>pieces_model = trainer_entry h params ''type'',
           pieces_iterator = trainer_entry h params ''num_epochs'',
           pieces_train_dataset = h params ''model'',
           pieces_validation_dataset = None,
           pieces_params = params,
           pieces_validation_iterator = None\<rparr>, h)"

definition observing_Trainer_from_params ::
  "heap \<Rightarrow> pyval option \<Rightarrow> string \<Rightarrow> pyval option \<Rightarrow> pyval option \<Rightarrow> pyval option \<Rightarrow> addr
     \<Rightarrow> pyval option \<Rightarrow> (error + pyval option list) \<times> heap"
where
  "observing_Trainer_from_params h model serialization_dir iterator train_data
       validation_data params validation_iterator =
     (Inr [Some (VStr ''Trainer''), model, iterator, train_data], h)"

definition observing_collaborators ::
  "(string, pyval option, pyval option list) collaborators"
where
  "observing_collaborators =
     \<lparr>by_name = example_by_name,
      sub_from_params = observing_sub_from_params,
      TrainerPieces_from_params = observing_TrainerPieces_from_params,
      Trainer_from_params = observing_Trainer_from_params\<rparr>"

section \<open>Auxiliary facts\<close>

lemma isinstance_disjoint: "\<not> (isinstance_int v \<and> isinstance_list v)"
  by (cases v) simp_all

lemma drop_key_same: "drop_key h a key a key = None"
  by (simp add: drop_key_def)

lemma drop_key_other_key: "k \<noteq> key \<Longrightarrow> drop_key h a key a k = h a k"
  by (simp add: drop_key_def)

lemma drop_key_other_addr: "b \<noteq> a \<Longrightarrow> drop_key h a key b = h b"
  by (simp add: drop_key_def)

lemma pop_trainer_type_present:
  "h params ''trainer'' = Some (VDict a) \<Longrightarrow> h a ''type'' = Some v \<Longrightarrow>
   pop_trainer_type h params = (Inr v, drop_key h a ''type'')"
  by (simp add: pop_trainer_type_def Params_pop_def)



lemma example_heap_10:
  "example_heap 10 = [''trainer'' \<mapsto> VDict 11, ''model'' \<mapsto> VStr ''lm'']"
  by (simp add: example_heap_def)

lemma example_heap_11:
  "example_heap 11 = [''type'' \<mapsto> VStr ''callback'', ''num_epochs'' \<mapsto> VInt 3]"
  by (simp add: example_heap_def)


lemma default_heap_20:
  "default_heap 20 = [''trainer'' \<mapsto> VDict 21, ''model'' \<mapsto> VStr ''lm'']"
  by (simp add: default_heap_def)

lemma default_heap_21:
  "default_heap 21 = [''type'' \<mapsto> VStr ''default'', ''num_epochs'' \<mapsto> VInt 3]"
  by (simp add: default_heap_def)

lemmas observing_defs =
  observing_collaborators_def example_by_name_def observing_sub_from_params_def
  observing_TrainerPieces_from_params_def observing_Trainer_from_params_def
  trainer_entry_def


section \<open>The factory method: dispatch on the type\<close>



section \<open>The factory method: the type is popped\<close>

text \<open>
  C8. When the dictionary under \<^verbatim>\<open>"trainer"\<close> has a \<^verbatim>\<open>"type"\<close> entry, \<^verbatim>\<open>from_params\<close>
  hands over the same \<^verbatim>\<open>params\<close> object in a store where that entry is gone: for the
  value \<^verbatim>\<open>"default"\<close> it is \<^verbatim>\<open>TrainerPieces.from_params\<close> that is called on that store
  (and \<^verbatim>\<open>Trainer.from_params\<close> on the pieces and the store it returns), for another value
  the class found by name. The \<^verbatim>\<open>"type"\<close> key of the dictionary is deleted, its other
  keys are as before, and so is every other dictionary. A failed lookup by name leaves
  that store behind.
\<close>

theorem from_params_pops_type:
  assumes "h params ''trainer'' = Some (VDict a)" and "h a ''type'' = Some v"
  shows "from_params C h params serialization_dir recover =
           (if py_eq_str v ''default''
            then (case TrainerPieces_from_params C (drop_key h a ''type'') params
                         serialization_dir recover of
                    (Inl e, h') \<Rightarrow> (Inl e, h')
                  | (Inr pieces, h') \<Rightarrow>
                      Trainer_from_params C h'
                        (pieces_model pieces)
                        serialization_dir
                        (pieces_iterator pieces)
                        (pieces_train_dataset pieces)
                        (pieces_validation_dataset pieces)
                        (pieces_params pieces)
                        (pieces_validation_iterator pieces))
            else (case by_name C v of
                    Inl e \<Rightarrow> (Inl e, drop_key h a ''type'')
                  | Inr impl \<Rightarrow>
                      sub_from_params C impl (drop_key h a ''type'') params
                        serialization_dir recover))
         \<and> drop_key h a ''type'' a ''type'' = None
         \<and> (\<forall>k. k \<noteq> ''type'' \<longrightarrow> drop_key h a ''type'' a k = h a k)
         \<and> (\<forall>b. b \<noteq> a \<longrightarrow> drop_key h a ''type'' b = h b)"
proof -
  from assms have popped: "pop_trainer_type h params = (Inr v, drop_key h a ''type'')"
    by (rule pop_trainer_type_present)
  show ?thesis
    by (simp add: from_params_def popped default_from_params_def drop_key_same
        drop_key_other_key drop_key_other_addr)
qed

text \<open>
  With the collaborators that look into the configuration. For the type \<^verbatim>\<open>"callback"\<close>
  the class found by name sees no \<^verbatim>\<open>"type"\<close> entry, and sees \<^verbatim>\<open>"num_epochs"\<close> and
  \<^verbatim>\<open>"model"\<close> as they were; for the type \<^verbatim>\<open>"default"\<close> the same holds of
  \<^verbatim>\<open>TrainerPieces.from_params\<close>, whose pieces reach \<^verbatim>\<open>Trainer.from_params\<close>. In both stores
  the \<^verbatim>\<open>"type"\<close> key is gone after the call and the other entries are in place.
\<close>

theorem from_params_pops_type_witness:
  "example_heap 10 ''trainer'' = Some (VDict 11)
   \<and> example_heap 11 ''type'' = Some (VStr ''callback'')
   \<and> fst (from_params observing_collaborators example_heap 10 ''out'' False)
       = Inr [Some (VStr ''callback''), None, Some (VInt 3), Some (VStr ''lm'')]
   \<and> snd (from_params observing_collaborators example_heap 10 ''out'' False) 11 ''type''
       = None
   \<and> snd (from_params observing_collaborators example_heap 10 ''out'' False) 11 ''num_epochs''
       = Some (VInt 3)
   \<and> snd (from_params observing_collaborators example_heap 10 ''out'' False) 10 ''model''
       = Some (VStr ''lm'')
   \<and> snd (from_params observing_collaborators example_heap 10 ''out'' False) 10 ''trainer''
       = Some (VDict 11)
   \<and> default_heap 20 ''trainer'' = Some (VDict 21)
   \<and> default_heap 21 ''type'' = Some (VStr ''default'')
   \<and> fst (from_params observing_collaborators default_heap 20 ''out'' False)
       = Inr [Some (VStr ''Trainer''), None, Some (VInt 3), Some (VStr ''lm'')]
   \<and> snd (from_params observing_collaborators default_heap 20 ''out'' False) 21 ''type''
       = None
   \<and> snd (from_params observing_collaborators default_heap 20 ''out'' False) 21 ''num_epochs''
       = Some (VInt 3)
   \<and> snd (from_params observing_collaborators default_heap 20 ''out'' False) 20 ''model''
       = Some (VStr ''lm'')
   \<and> snd (from_params observing_collaborators default_heap 20 ''out'' False) 20 ''trainer''
       = Some (VDict 21)"
proof -
  have callback:
    "example_heap 10 ''trainer'' = Some (VDict 11)"
    "example_heap 11 ''type'' = Some (VStr ''callback'')"
    by (simp_all add: example_heap_10 example_heap_11)
  have default:
    "default_heap 20 ''trainer'' = Some (VDict 21)"
    "default_heap 21 ''type'' = Some (VStr ''default'')"
    by (simp_all add: default_heap_20 default_heap_21)
  have seen_callback:
    "drop_key example_heap 11 ''type'' 10 = example_heap 10"
    "drop_key example_heap 11 ''type'' 11 = [''num_epochs'' \<mapsto> VInt 3]"
    by (auto simp: drop_key_def example_heap_11)
  have seen_default:
    "drop_key default_heap 21 ''type'' 20 = default_heap 20"
    "drop_key default_heap 21 ''type'' 21 = [''num_epochs'' \<mapsto> VInt 3]"
    by (auto simp: drop_key_def default_heap_21)
  from
    from_params_pops_type [OF callback, of observing_collaborators "''out''" False]
    from_params_pops_type [OF default, of observing_collaborators "''out''" False]
    callback default
  show ?thesis
    by (simp add: observing_defs seen_callback seen_default example_heap_10 default_heap_20)
qed

section \<open>The constructor: validation of the device\<close>

text \<open>
  What the constructor does once \<^verbatim>\<open>check_for_gpu(cuda_device)\<close> has returned: a
  \<^verbatim>\<open>cuda_device\<close> that is neither an \<^verbatim>\<open>int\<close> nor a list is refused with
  \<^verbatim>\<open>ConfigurationError\<close> (lines 38 and 39); an \<^verbatim>\<open>int\<close> or a list passes the type check,
  and the constructor then builds the trainer or fails the assertion of line 57. When
  \<^verbatim>\<open>check_for_gpu\<close> raises, the constructor raises that exception and the type check is
  not reached.
\<close>

lemma init_type_check_when_reached:
  "(\<not> isinstance_int cuda_device \<and> \<not> isinstance_list cuda_device \<longrightarrow>
      TrainerBase_init check_for_gpu serialization_dir cuda_device allocation_dict =
        Inl (case check_for_gpu cuda_device of None \<Rightarrow> ConfigurationError | Some e \<Rightarrow> e))
   \<and> ((isinstance_int cuda_device \<or> isinstance_list cuda_device)
        \<and> check_for_gpu cuda_device = None \<longrightarrow>
      (\<exists>self. TrainerBase_init check_for_gpu serialization_dir cuda_device allocation_dict
                = Inr self)
      \<or> TrainerBase_init check_for_gpu serialization_dir cuda_device allocation_dict
           = Inl AssertionError)"
proof (cases "check_for_gpu cuda_device")
  case None
  then show ?thesis
    by (auto simp: TrainerBase_init_def)
next
  case (Some e)
  then show ?thesis
    by (simp add: TrainerBase_init_def)
qed

text \<open>
  C2. The type check is meant to answer every \<^verbatim>\<open>cuda_device\<close> that is neither an \<^verbatim>\<open>int\<close>
  nor a list with \<^verbatim>\<open>ConfigurationError\<close>, but the constructor calls \<^verbatim>\<open>check_for_gpu\<close>
  on the value first (line 33). A dictionary and a string are neither an \<^verbatim>\<open>int\<close> nor a
  list, and on a host with any number of CUDA devices the constructor ends, for each of
  them and whatever the allocation, with the \<^verbatim>\<open>TypeError\<close> of that call: the
  \<^verbatim>\<open>ConfigurationError\<close> of lines 38 and 39 is never raised for them.
\<close>

theorem init_type_error_before_type_check:
  "\<not> isinstance_int (VDict a) \<and> \<not> isinstance_list (VDict a)
   \<and> TrainerBase_init (check_for_gpu_on n) serialization_dir (VDict a) allocation_dict
       = Inl TypeError
   \<and> \<not> isinstance_int (VStr s) \<and> \<not> isinstance_list (VStr s)
   \<and> TrainerBase_init (check_for_gpu_on n) serialization_dir (VStr s) allocation_dict
       = Inl TypeError"
  by (simp add: TrainerBase_init_def)

section \<open>The constructor: one device and an allocation\<close>

text \<open>
  On a host without CUDA devices, the device 0 with the allocation
  \<^verbatim>\<open>{"encoder": 0}\<close> does not reach the assertion: \<^verbatim>\<open>check_for_gpu\<close> raises
  \<^verbatim>\<open>ConfigurationError\<close> first.
\<close>

theorem init_assertion_counterexample:
  "isinstance_int (VInt 0) \<and> \<not> none_or_empty (Some [(''encoder'', 0)])
   \<and> TrainerBase_init (check_for_gpu_on 0) ''out'' (VInt 0) (Some [(''encoder'', 0)])
       = Inl ConfigurationError
   \<and> TrainerBase_init (check_for_gpu_on 0) ''out'' (VInt 0) (Some [(''encoder'', 0)])
       \<noteq> Inl AssertionError"
  by (simp add: TrainerBase_init_def none_or_empty_def)

text \<open>
  C6, amended. For an \<^verbatim>\<open>int\<close> \<^verbatim>\<open>cuda_device\<close>: when \<^verbatim>\<open>check_for_gpu(cuda_device)\<close> raises,
  the constructor raises that exception; when it returns, a non-empty
  \<^verbatim>\<open>allocation_dict\<close> raises \<^verbatim>\<open>AssertionError\<close>, and with \<^verbatim>\<open>allocation_dict\<close> \<^verbatim>\<open>None\<close> or
  empty the constructor succeeds, with \<^verbatim>\<open>_multiple_gpu\<close> false, \<^verbatim>\<open>_cuda_devices\<close> the
  list \<^verbatim>\<open>[cuda_device]\<close> and \<^verbatim>\<open>_allocation_dict\<close> \<^verbatim>\<open>None\<close>.
\<close>

theorem init_single_device:
  assumes "isinstance_int cuda_device"
  shows "TrainerBase_init check_for_gpu serialization_dir cuda_device allocation_dict =
           (case check_for_gpu cuda_device of
              Some e \<Rightarrow> Inl e
            | None \<Rightarrow>
                if none_or_empty allocation_dict
                then Inr \<lparr>self_serialization_dir = serialization_dir,
                          self_multiple_gpu = False,
                          self_cuda_devices = [cuda_device],
                          self_allocation_dict = None\<rparr>
                else Inl AssertionError)"
proof -
  from assms have "\<not> isinstance_list cuda_device"
    using isinstance_disjoint by blast
  with assms show ?thesis
    by (simp add: TrainerBase_init_def split: option.splits)
qed

text \<open>
  The device \<open>-1\<close> (the CPU) passes \<^verbatim>\<open>check_for_gpu\<close> on any host: with an allocation
  the assertion fails, with \<^verbatim>\<open>None\<close> and with \<^verbatim>\<open>{}\<close> the trainer is built.
\<close>

theorem init_single_device_witness:
  "isinstance_int (VInt (- 1))
   \<and> TrainerBase_init (check_for_gpu_on 0) ''out'' (VInt (- 1)) (Some [(''encoder'', 0)])
       = Inl AssertionError
   \<and> TrainerBase_init (check_for_gpu_on 0) ''out'' (VInt (- 1)) None
       = Inr (example_trainer [VInt (- 1)])
   \<and> TrainerBase_init (check_for_gpu_on 0) ''out'' (VInt (- 1)) (Some [])
       = Inr (example_trainer [VInt (- 1)])"
  using
    init_single_device [where cuda_device = "VInt (- 1)" and check_for_gpu = "check_for_gpu_on 0"
      and serialization_dir = "''out''" and allocation_dict = "Some [(''encoder'', 0)]"]
    init_single_device [where cuda_device = "VInt (- 1)" and check_for_gpu = "check_for_gpu_on 0"
      and serialization_dir = "''out''" and allocation_dict = None]
    init_single_device [where cuda_device = "VInt (- 1)" and check_for_gpu = "check_for_gpu_on 0"
      and serialization_dir = "''out''" and allocation_dict = "Some []"]
  by (simp add: none_or_empty_def example_trainer_def)

section \<open>The constructor: what it establishes\<close>

text \<open>
  C7. After a successful construction, \<^verbatim>\<open>_multiple_gpu\<close> is true exactly when
  \<^verbatim>\<open>cuda_device\<close> was a list and \<^verbatim>\<open>allocation_dict\<close> was \<^verbatim>\<open>None\<close> or empty;
  \<^verbatim>\<open>_allocation_dict\<close> is not \<^verbatim>\<open>None\<close> exactly when \<^verbatim>\<open>cuda_device\<close> was a list and
  \<^verbatim>\<open>allocation_dict\<close> was non-empty; so \<^verbatim>\<open>_multiple_gpu\<close> true implies \<^verbatim>\<open>_allocation_dict\<close>
  \<^verbatim>\<open>None\<close>; and an \<^verbatim>\<open>int\<close> \<^verbatim>\<open>cuda_device\<close> gives \<^verbatim>\<open>_multiple_gpu\<close> false and
  \<^verbatim>\<open>_cuda_devices\<close> the one-element list \<^verbatim>\<open>[cuda_device]\<close>.
\<close>

theorem init_invariant:
  assumes "TrainerBase_init check_for_gpu serialization_dir cuda_device allocation_dict = Inr self"
  shows "(self_multiple_gpu self \<longleftrightarrow>
            isinstance_list cuda_device \<and> none_or_empty allocation_dict)
       \<and> (self_allocation_dict self \<noteq> None \<longleftrightarrow>
            isinstance_list cuda_device \<and> \<not> none_or_empty allocation_dict)
       \<and> (self_multiple_gpu self \<longrightarrow> self_allocation_dict self = None)
       \<and> (isinstance_int cuda_device \<longrightarrow>
            \<not> self_multiple_gpu self \<and> self_cuda_devices self = [cuda_device])"
proof (cases "isinstance_list cuda_device")
  case True
  then have "\<not> isinstance_int cuda_device"
    using isinstance_disjoint by blast
  with True assms show ?thesis
    by (auto simp: TrainerBase_init_def none_or_empty_def split: option.splits if_splits)
next
  case False
  with assms show ?thesis
    by (auto simp: TrainerBase_init_def split: option.splits if_splits)
qed

text \<open>
  With two CUDA devices: the list \<^verbatim>\<open>[0, 1]\<close> without allocation is the data parallel
  mode, the same list with the allocation \<^verbatim>\<open>{"encoder": 0, "decoder": 1}\<close> keeps the
  allocation, and the number 1 is a single device.
\<close>

theorem init_invariant_witness:
  "TrainerBase_init (check_for_gpu_on 2) ''out'' (VList [VInt 0, VInt 1]) None
     = Inr ((example_trainer [VInt 0, VInt 1])\<lparr>self_multiple_gpu := True\<rparr>)
   \<and> isinstance_list (VList [VInt 0, VInt 1]) \<and> none_or_empty None
   \<and> TrainerBase_init (check_for_gpu_on 2) ''out'' (VList [VInt 0, VInt 1])
        (Some [(''encoder'', 0), (''decoder'', 1)])
     = Inr ((example_trainer [VInt 0, VInt 1])
              \<lparr>self_allocation_dict := Some [(''encoder'', 0), (''decoder'', 1)]\<rparr>)
   \<and> \<not> none_or_empty (Some [(''encoder'', 0), (''decoder'', 1)])
   \<and> TrainerBase_init (check_for_gpu_on 2) ''out'' (VInt 1) None
     = Inr (example_trainer [VInt 1])
   \<and> isinstance_int (VInt 1)
   \<and> \<not> self_multiple_gpu (example_trainer [VInt 1])
   \<and> self_cuda_devices (example_trainer [VInt 1]) = [VInt 1]"
proof -
  have list_only:
    "TrainerBase_init (check_for_gpu_on 2) ''out'' (VList [VInt 0, VInt 1]) None
       = Inr ((example_trainer [VInt 0, VInt 1])\<lparr>self_multiple_gpu := True\<rparr>)"
    by (simp add: TrainerBase_init_def none_or_empty_def example_trainer_def)
  have list_allocation:
    "TrainerBase_init (check_for_gpu_on 2) ''out'' (VList [VInt 0, VInt 1])
        (Some [(''encoder'', 0), (''decoder'', 1)])
       = Inr ((example_trainer [VInt 0, VInt 1])
                \<lparr>self_allocation_dict := Some [(''encoder'', 0), (''decoder'', 1)]\<rparr>)"
    by (simp add: TrainerBase_init_def none_or_empty_def example_trainer_def)
  have single:
    "TrainerBase_init (check_for_gpu_on 2) ''out'' (VInt 1) None = Inr (example_trainer [VInt 1])"
    by (simp add: TrainerBase_init_def none_or_empty_def example_trainer_def)
  from init_invariant [OF list_only] init_invariant [OF list_allocation]
    init_invariant [OF single] list_only list_allocation single
  show ?thesis
    by simp
qed

section \<open>The constructor: the empty list of devices\<close>

text \<open>
  C3. The empty list as \<^verbatim>\<open>cuda_device\<close> passes \<^verbatim>\<open>check_for_gpu\<close> (there is no device
  to check) and the type check, so the constructor succeeds, and \<^verbatim>\<open>_cuda_devices\<close> is
  the empty list: \<^verbatim>\<open>_move_to_gpu\<close> on that trainer raises \<^verbatim>\<open>IndexError\<close>.
\<close>

theorem empty_device_list_index_error:
  "TrainerBase_init (check_for_gpu_on n) serialization_dir (VList []) None =
     Inr \<lparr>self_serialization_dir = serialization_dir, self_multiple_gpu = True,
          self_cuda_devices = [], self_allocation_dict = None\<rparr>
   \<and> fst (move_to_gpu cuda
            \<lparr>self_serialization_dir = serialization_dir, self_multiple_gpu = True,
             self_cuda_devices = [], self_allocation_dict = None\<rparr> model) = Inl IndexError"
  by (simp add: TrainerBase_init_def none_or_empty_def move_to_gpu_def)

section \<open>Moving the model to the GPU\<close>

text \<open>
  The trainer built from the empty list of devices is a constructed trainer, and
  \<^verbatim>\<open>_move_to_gpu\<close> on it returns neither the model nor the result of \<^verbatim>\<open>model.cuda\<close>: it
  raises \<^verbatim>\<open>IndexError\<close>.
\<close>

theorem move_to_gpu_empty_counterexample:
  "TrainerBase_init (check_for_gpu_on 2) ''out'' (VList []) None
     = Inr ((example_trainer [])\<lparr>self_multiple_gpu := True\<rparr>)
   \<and> fst (move_to_gpu example_cuda ((example_trainer [])\<lparr>self_multiple_gpu := True\<rparr>) [])
       = Inl IndexError
   \<and> fst (move_to_gpu example_cuda ((example_trainer [])\<lparr>self_multiple_gpu := True\<rparr>) [])
       \<noteq> Inr []"
  by (simp add: TrainerBase_init_def none_or_empty_def example_trainer_def move_to_gpu_def)

text \<open>
  C5, amended. On a trainer whose \<^verbatim>\<open>_cuda_devices\<close> is not empty, with first item \<open>d\<close>,
  \<^verbatim>\<open>_move_to_gpu\<close> returns the model itself when \<open>d\<close> equals \<open>-1\<close> and \<^verbatim>\<open>model.cuda(d)\<close>
  otherwise; the trainer is left as it was, and the result is the same on every trainer
  with the same \<^verbatim>\<open>_cuda_devices\<close>, whatever its other attributes.
\<close>

theorem move_to_gpu_first_device:
  assumes "self_cuda_devices self = d # ds"
  shows "fst (move_to_gpu cuda self model)
           = (if py_eq_int d (- 1) then Inr model else cuda model d)
         \<and> snd (move_to_gpu cuda self model) = self
         \<and> (\<forall>other. self_cuda_devices other = self_cuda_devices self
              \<longrightarrow> fst (move_to_gpu cuda other model) = fst (move_to_gpu cuda self model))"
  using assms by (simp add: move_to_gpu_def)

text \<open>
  The trainers built for the device 1 and for the device \<open>-1\<close>, and a model that is the
  list of the devices it was moved to: the first call moves it to 1, the second returns
  it as it is.
\<close>

theorem move_to_gpu_first_device_witness:
  "TrainerBase_init (check_for_gpu_on 2) ''out'' (VInt 1) None = Inr (example_trainer [VInt 1])
   \<and> self_cuda_devices (example_trainer [VInt 1]) = VInt 1 # []
   \<and> move_to_gpu example_cuda (example_trainer [VInt 1]) []
       = (Inr [VInt 1], example_trainer [VInt 1])
   \<and> TrainerBase_init (check_for_gpu_on 2) ''out'' (VInt (- 1)) None
       = Inr (example_trainer [VInt (- 1)])
   \<and> self_cuda_devices (example_trainer [VInt (- 1)]) = VInt (- 1) # []
   \<and> move_to_gpu example_cuda (example_trainer [VInt (- 1)]) []
       = (Inr [], example_trainer [VInt (- 1)])"
proof -
  have one: "self_cuda_devices (example_trainer [VInt 1]) = VInt 1 # []"
    by (simp add: example_trainer_def)
  have cpu: "self_cuda_devices (example_trainer [VInt (- 1)]) = VInt (- 1) # []"
    by (simp add: example_trainer_def)
  have built:
    "TrainerBase_init (check_for_gpu_on 2) ''out'' (VInt 1) None = Inr (example_trainer [VInt 1])"
    "TrainerBase_init (check_for_gpu_on 2) ''out'' (VInt (- 1)) None
       = Inr (example_trainer [VInt (- 1)])"
    by (simp_all add: TrainerBase_init_def none_or_empty_def example_trainer_def)
  from move_to_gpu_first_device [OF one, of example_cuda "[]"]
    move_to_gpu_first_device [OF cpu, of example_cuda "[]"] one cpu built
  show ?thesis
    by (simp add: prod_eq_iff example_cuda_def)
qed

section \<open>Training\<close>

text \<open>
  C4. \<^verbatim>\<open>train\<close> of the base class raises \<^verbatim>\<open>NotImplementedError\<close> on every trainer, and
  so never returns a result.
\<close>

theorem train_not_implemented:
  "train self = Inl NotImplementedError \<and> (\<forall>result. train self \<noteq> Inr result)"
  by (simp add: train_def)


end
